theory Spec2Isabelle
  imports Complex_Main
begin

section \<open>Values and the Venue entity\<close>

text \<open>
  The application is a single Python module, \<^verbatim>\<open>app.py\<close>: a SQLAlchemy table of venues, a
  \<^verbatim>\<open>Database\<close> class of queries over it, a haversine helper and the pages that call them.

  Python attributes are dynamically typed, so a column of a venue holds a Python value.
  Floats are modelled as reals; \<^verbatim>\<open>datetime\<close> values by their calendar fields.
\<close>

record datetime =
  year :: nat
  month :: nat
  day :: nat
  hour :: nat
  minute :: nat
  second :: nat
  microsecond :: nat

datatype pyval =
    PNone
  | PBool bool
  | PInt int
  | PFloat real
  | PStr string
  | PDateTime datetime

datatype py_error = ValueError | TypeError | AttributeError | ZeroDivisionError

text \<open>Python truthiness, as \<^verbatim>\<open>if x:\<close>, \<^verbatim>\<open>x or y\<close> and \<^verbatim>\<open>bool(x)\<close> read it.\<close>

fun truthy :: "pyval \<Rightarrow> bool" where
  "truthy PNone = False"
| "truthy (PBool b) = b"
| "truthy (PInt i) = (i \<noteq> 0)"
| "truthy (PFloat r) = (r \<noteq> 0)"
| "truthy (PStr s) = (s \<noteq> [])"
| "truthy (PDateTime d) = True"

definition py_or :: "pyval \<Rightarrow> pyval \<Rightarrow> pyval" where
  "py_or a b = (if truthy a then a else b)"

text \<open>
  The class \<^verbatim>\<open>Venue\<close>: one field per \<^verbatim>\<open>Column\<close>, in the order of the class body. The primary
  key \<^verbatim>\<open>id\<close> is the field \<open>venue_id\<close>.
\<close>

record venue =
  venue_id :: pyval
  google_place_id :: pyval
  google_name :: pyval
  name :: pyval
  osm_id :: pyval
  osm_type :: pyval
  amenity :: pyval
  cuisine :: pyval
  search_type :: pyval
  google_phone :: pyval
  google_phone_intl :: pyval
  phone :: pyval
  google_website :: pyval
  website :: pyval
  google_vicinity :: pyval
  address :: pyval
  housenumber :: pyval
  postcode :: pyval
  search_ward :: pyval
  search_postcode_sector :: pyval
  search_constituency :: pyval
  google_lat :: pyval
  google_lng :: pyval
  latitude :: pyval
  longitude :: pyval
  google_rating :: pyval
  google_user_ratings_total :: pyval
  google_price_level :: pyval
  business_status :: pyval
  validated :: pyval
  data_source :: pyval
  is_chain :: pyval
  opening_hours :: pyval
  google_opening_hours :: pyval
  outdoor_seating :: pyval
  takeaway :: pyval
  delivery :: pyval
  wheelchair :: pyval
  google_types :: pyval
  google_photo_reference :: pyval
  visited :: pyval
  visit_date :: pyval
  interest_status :: pyval
  is_priority :: pyval
  "notes" :: pyval
  created_at :: pyval
  updated_at :: pyval

text \<open>
  The table \<^verbatim>\<open>venues\<close> is the list of its rows in insertion order; the session writes
  through to it (a query flushes pending rows first, and every write path ends in
  \<^verbatim>\<open>commit\<close>).
\<close>

type_synonym database = "venue list"

section \<open>The Database class\<close>

definition get_all_venues :: "database \<Rightarrow> venue list" where
  "get_all_venues db = db"

definition get_venue_by_id :: "database \<Rightarrow> int \<Rightarrow> venue option" where
  "get_venue_by_id db vid = find (\<lambda>v. venue_id v = PInt vid) db"

text \<open>
  \<^verbatim>\<open>setattr(venue, key, value)\<close>: a key that names a column assigns it; any other key
  becomes a plain attribute of the Python object, which no column and no query sees.
\<close>

definition setattr :: "venue \<Rightarrow> string \<Rightarrow> pyval \<Rightarrow> venue" where
  "setattr v key x =
    (if key = ''id'' then v\<lparr>venue_id := x\<rparr>
     else if key = ''google_place_id'' then v\<lparr>google_place_id := x\<rparr>
     else if key = ''google_name'' then v\<lparr>google_name := x\<rparr>
     else if key = ''name'' then v\<lparr>name := x\<rparr>
     else if key = ''osm_id'' then v\<lparr>osm_id := x\<rparr>
     else if key = ''osm_type'' then v\<lparr>osm_type := x\<rparr>
     else if key = ''amenity'' then v\<lparr>amenity := x\<rparr>
     else if key = ''cuisine'' then v\<lparr>cuisine := x\<rparr>
     else if key = ''search_type'' then v\<lparr>search_type := x\<rparr>
     else if key = ''google_phone'' then v\<lparr>google_phone := x\<rparr>
     else if key = ''google_phone_intl'' then v\<lparr>google_phone_intl := x\<rparr>
     else if key = ''phone'' then v\<lparr>phone := x\<rparr>
     else if key = ''google_website'' then v\<lparr>google_website := x\<rparr>
     else if key = ''website'' then v\<lparr>website := x\<rparr>
     else if key = ''google_vicinity'' then v\<lparr>google_vicinity := x\<rparr>
     else if key = ''address'' then v\<lparr>address := x\<rparr>
     else if key = ''housenumber'' then v\<lparr>housenumber := x\<rparr>
     else if key = ''postcode'' then v\<lparr>postcode := x\<rparr>
     else if key = ''search_ward'' then v\<lparr>search_ward := x\<rparr>
     else if key = ''search_postcode_sector'' then v\<lparr>search_postcode_sector := x\<rparr>
     else if key = ''search_constituency'' then v\<lparr>search_constituency := x\<rparr>
     else if key = ''google_lat'' then v\<lparr>google_lat := x\<rparr>
     else if key = ''google_lng'' then v\<lparr>google_lng := x\<rparr>
     else if key = ''latitude'' then v\<lparr>latitude := x\<rparr>
     else if key = ''longitude'' then v\<lparr>longitude := x\<rparr>
     else if key = ''google_rating'' then v\<lparr>google_rating := x\<rparr>
     else if key = ''google_user_ratings_total'' then v\<lparr>google_user_ratings_total := x\<rparr>
     else if key = ''google_price_level'' then v\<lparr>google_price_level := x\<rparr>
     else if key = ''business_status'' then v\<lparr>business_status := x\<rparr>
     else if key = ''validated'' then v\<lparr>validated := x\<rparr>
     else if key = ''data_source'' then v\<lparr>data_source := x\<rparr>
     else if key = ''is_chain'' then v\<lparr>is_chain := x\<rparr>
     else if key = ''opening_hours'' then v\<lparr>opening_hours := x\<rparr>
     else if key = ''google_opening_hours'' then v\<lparr>google_opening_hours := x\<rparr>
     else if key = ''outdoor_seating'' then v\<lparr>outdoor_seating := x\<rparr>
     else if key = ''takeaway'' then v\<lparr>takeaway := x\<rparr>
     else if key = ''delivery'' then v\<lparr>delivery := x\<rparr>
     else if key = ''wheelchair'' then v\<lparr>wheelchair := x\<rparr>
     else if key = ''google_types'' then v\<lparr>google_types := x\<rparr>
     else if key = ''google_photo_reference'' then v\<lparr>google_photo_reference := x\<rparr>
     else if key = ''visited'' then v\<lparr>visited := x\<rparr>
     else if key = ''visit_date'' then v\<lparr>visit_date := x\<rparr>
     else if key = ''interest_status'' then v\<lparr>interest_status := x\<rparr>
     else if key = ''is_priority'' then v\<lparr>is_priority := x\<rparr>
     else if key = ''notes'' then v\<lparr>notes := x\<rparr>
     else if key = ''created_at'' then v\<lparr>created_at := x\<rparr>
     else if key = ''updated_at'' then v\<lparr>updated_at := x\<rparr>
     else v)"

text \<open>
  \<^verbatim>\<open>for key, value in updates.items(): setattr(venue, key, value)\<close>: the dictionary is
  its items in insertion order.
\<close>

fun apply_updates :: "venue \<Rightarrow> (string \<times> pyval) list \<Rightarrow> venue" where
  "apply_updates v [] = v"
| "apply_updates v ((key, x) # rest) = apply_updates (setattr v key x) rest"

text \<open>The row that \<^verbatim>\<open>get_venue_by_id\<close> returns is rewritten in place.\<close>

fun replace_by_id :: "int \<Rightarrow> venue \<Rightarrow> database \<Rightarrow> database" where
  "replace_by_id vid w [] = []"
| "replace_by_id vid w (v # vs) =
     (if venue_id v = PInt vid then w # vs else v # replace_by_id vid w vs)"

text \<open>
  \<^verbatim>\<open>update_venue(venue_id, updates)\<close>, with the value of \<^verbatim>\<open>datetime.utcnow()\<close> as the
  argument \<open>now\<close>. Returns the store after the call and the method's result
  (\<open>None\<close> is Python's \<^verbatim>\<open>None\<close>).
\<close>

definition update_venue ::
  "database \<Rightarrow> datetime \<Rightarrow> int \<Rightarrow> (string \<times> pyval) list \<Rightarrow> database \<times> venue option" where
  "update_venue db now vid updates =
    (case get_venue_by_id db vid of
       None \<Rightarrow> (db, None)
     | Some venue \<Rightarrow>
         (let venue1 = apply_updates venue updates;
              venue2 = venue1\<lparr>updated_at := PDateTime now\<rparr>
          in (replace_by_id vid venue2 db, Some venue2)))"

subsection \<open>filter_venues\<close>

text \<open>
  A keyword argument is either left out of the call or passed; a parameter that is left
  out takes the default of the signature.
\<close>

datatype 'a arg = Omitted | Passed 'a

definition default_arg :: "'a \<Rightarrow> 'a arg \<Rightarrow> 'a" where
  "default_arg d a = (case a of Omitted \<Rightarrow> d | Passed x \<Rightarrow> x)"

text \<open>
  \<^verbatim>\<open>query.filter(Venue.col == x)\<close> for a value \<open>x\<close> that is not \<^verbatim>\<open>None\<close>: SQL equality, which
  a NULL column never satisfies.
\<close>

definition where_eq :: "(venue \<Rightarrow> pyval) \<Rightarrow> pyval \<Rightarrow> venue list \<Rightarrow> venue list" where
  "where_eq col x q = filter (\<lambda>v. col v = x) q"

text \<open>\<^verbatim>\<open>query.filter(Venue.col >= r)\<close> on a numeric column; NULL fails the comparison.\<close>

fun num_ge :: "pyval \<Rightarrow> real \<Rightarrow> bool" where
  "num_ge (PFloat x) r = (r \<le> x)"
| "num_ge (PInt i) r = (r \<le> real_of_int i)"
| "num_ge _ r = False"

definition where_ge :: "(venue \<Rightarrow> pyval) \<Rightarrow> real \<Rightarrow> venue list \<Rightarrow> venue list" where
  "where_ge col r q = filter (\<lambda>v. num_ge (col v) r) q"

text \<open>\<^verbatim>\<open>if x and x != "All"\<close> on an optional string.\<close>

definition chosen :: "string option \<Rightarrow> bool" where
  "chosen x = (case x of None \<Rightarrow> False | Some s \<Rightarrow> s \<noteq> [] \<and> s \<noteq> ''All'')"

definition where_str :: "(venue \<Rightarrow> pyval) \<Rightarrow> string option \<Rightarrow> venue list \<Rightarrow> venue list" where
  "where_str col x q = (case x of None \<Rightarrow> q | Some s \<Rightarrow> where_eq col (PStr s) q)"

definition filter_venues ::
  "database \<Rightarrow> string option arg \<Rightarrow> string option arg \<Rightarrow> string option arg \<Rightarrow>
   string option arg \<Rightarrow> real option arg \<Rightarrow> bool option arg \<Rightarrow> string option arg \<Rightarrow>
   string option arg \<Rightarrow> venue list" where
  "filter_venues db ward_arg postcode_sector_arg amenity_arg cuisine_arg min_rating_arg
       visited_arg interest_status_arg business_status_arg =
    (let ward = default_arg None ward_arg;
         postcode_sector = default_arg None postcode_sector_arg;
         amenity' = default_arg None amenity_arg;
         cuisine' = default_arg None cuisine_arg;
         min_rating = default_arg None min_rating_arg;
         visited' = default_arg None visited_arg;
         interest_status' = default_arg None interest_status_arg;
         business_status' = default_arg (Some ''OPERATIONAL'') business_status_arg;
         query = db;
         query = (if business_status' \<noteq> None \<and> business_status' \<noteq> Some []
                  then where_str business_status business_status' query else query);
         query = (if chosen ward then where_str search_ward ward query else query);
         query = (if chosen postcode_sector
                  then where_str search_postcode_sector postcode_sector query else query);
         query = (if chosen amenity' then where_str amenity amenity' query else query);
         query = (if chosen cuisine' then where_str cuisine cuisine' query else query);
         query = (case min_rating of
                    None \<Rightarrow> query
                  | Some r \<Rightarrow> if r \<noteq> 0 \<and> r > 0 then where_ge google_rating r query else query);
         query = (case visited' of
                    None \<Rightarrow> query
                  | Some b \<Rightarrow> where_eq visited (PBool b) query);
         query = (if interest_status' \<noteq> None \<and> interest_status' \<noteq> Some []
                  then where_str interest_status interest_status' query else query)
     in query)"

subsection \<open>get_statistics\<close>

record statistics =
  total :: nat
  stat_visited :: nat
  not_visited :: int
  interested :: nat
  not_interested :: nat
  conversion_rate :: real

text \<open>\<^verbatim>\<open>query.filter(cond).count()\<close>.\<close>

definition count_where :: "(venue \<Rightarrow> bool) \<Rightarrow> database \<Rightarrow> nat" where
  "count_where cond db = length (filter cond db)"

text \<open>Python's \<^verbatim>\<open>a / b\<close> on integers: true division, \<^verbatim>\<open>ZeroDivisionError\<close> when \<open>b = 0\<close>.\<close>

definition py_truediv :: "nat \<Rightarrow> nat \<Rightarrow> py_error + real" where
  "py_truediv a b = (if b = 0 then Inl ZeroDivisionError else Inr (real a / real b))"

definition get_statistics :: "database \<Rightarrow> py_error + statistics" where
  "get_statistics db =
    (let total' = length db;
         visited' = count_where (\<lambda>v. visited v = PBool True) db;
         interested' = count_where (\<lambda>v. interest_status v = PStr ''interested'') db;
         not_interested' = count_where (\<lambda>v. interest_status v = PStr ''not_interested'') db
     in case (if visited' > 0
              then (case py_truediv interested' visited' of
                      Inl e \<Rightarrow> Inl e
                    | Inr q \<Rightarrow> Inr (q * 100))
              else Inr 0) of
          Inl e \<Rightarrow> Inl e
        | Inr rate \<Rightarrow>
            Inr \<lparr> total = total',
                  stat_visited = visited',
                  not_visited = int total' - int visited',
                  interested = interested',
                  not_interested = not_interested',
                  conversion_rate = rate \<rparr>)"

subsection \<open>import_from_csv\<close>

text \<open>
  A row of the data frame is a pandas \<^verbatim>\<open>Series\<close>: a cell per column label. A cell that is
  empty in the file holds the float NaN; \<^verbatim>\<open>row.get(label)\<close> is \<^verbatim>\<open>None\<close> for a label the
  frame does not have.
\<close>

datatype cell = NaN | Cell pyval

type_synonym row = "(string \<times> cell) list"

definition row_get :: "row \<Rightarrow> string \<Rightarrow> cell option" where
  "row_get r label = map_of r label"

text \<open>\<^verbatim>\<open>pd.notna(x)\<close> on a scalar: false for \<^verbatim>\<open>None\<close> and for NaN.\<close>

fun notna :: "cell option \<Rightarrow> bool" where
  "notna None = False"
| "notna (Some NaN) = False"
| "notna (Some (Cell PNone)) = False"
| "notna (Some (Cell x)) = True"

text \<open>
  The value a column holds once the row is written: SQLite has no NaN and stores it as
  NULL, which reads back as \<^verbatim>\<open>None\<close>.
\<close>

fun column_value :: "cell option \<Rightarrow> pyval" where
  "column_value None = PNone"
| "column_value (Some NaN) = PNone"
| "column_value (Some (Cell x)) = x"

text \<open>
  \<^verbatim>\<open>float(x)\<close> and \<^verbatim>\<open>int(x)\<close>. How Python reads a number out of a string is a parameter:
  \<open>None\<close> is the string that \<^verbatim>\<open>float\<close> (or \<^verbatim>\<open>int\<close>) rejects with \<^verbatim>\<open>ValueError\<close>.
\<close>

record parsers =
  float_of_str :: "string \<Rightarrow> real option"
  int_of_str :: "string \<Rightarrow> int option"

fun py_float :: "parsers \<Rightarrow> cell option \<Rightarrow> py_error + pyval" where
  "py_float E None = Inl TypeError"
| "py_float E (Some NaN) = Inr PNone"
| "py_float E (Some (Cell PNone)) = Inl TypeError"
| "py_float E (Some (Cell (PBool b))) = Inr (PFloat (if b then 1 else 0))"
| "py_float E (Some (Cell (PInt i))) = Inr (PFloat (real_of_int i))"
| "py_float E (Some (Cell (PFloat x))) = Inr (PFloat x)"
| "py_float E (Some (Cell (PStr s))) =
     (case float_of_str E s of None \<Rightarrow> Inl ValueError | Some x \<Rightarrow> Inr (PFloat x))"
| "py_float E (Some (Cell (PDateTime d))) = Inl TypeError"

fun py_int :: "parsers \<Rightarrow> cell option \<Rightarrow> py_error + pyval" where
  "py_int E None = Inl TypeError"
| "py_int E (Some NaN) = Inl ValueError"
| "py_int E (Some (Cell PNone)) = Inl TypeError"
| "py_int E (Some (Cell (PBool b))) = Inr (PInt (if b then 1 else 0))"
| "py_int E (Some (Cell (PInt i))) = Inr (PInt i)"
| "py_int E (Some (Cell (PFloat x))) = Inr (PInt (if 0 \<le> x then \<lfloor>x\<rfloor> else \<lceil>x\<rceil>))"
| "py_int E (Some (Cell (PStr s))) =
     (case int_of_str E s of None \<Rightarrow> Inl ValueError | Some i \<Rightarrow> Inr (PInt i))"
| "py_int E (Some (Cell (PDateTime d))) = Inl TypeError"

definition py_bool :: "cell option \<Rightarrow> pyval" where
  "py_bool c = PBool (truthy (column_value c) \<or> c = Some NaN)"

text \<open>The three conditional expressions of the constructor call.\<close>

definition float_if_notna :: "parsers \<Rightarrow> row \<Rightarrow> string \<Rightarrow> py_error + pyval" where
  "float_if_notna E r label =
     (if notna (row_get r label) then py_float E (row_get r label) else Inr PNone)"

definition int_if_notna :: "parsers \<Rightarrow> row \<Rightarrow> string \<Rightarrow> py_error + pyval" where
  "int_if_notna E r label =
     (if notna (row_get r label) then py_int E (row_get r label) else Inr PNone)"

definition bool_if_notna :: "row \<Rightarrow> string \<Rightarrow> pyval" where
  "bool_if_notna r label =
     (if notna (row_get r label) then py_bool (row_get r label) else PBool False)"

text \<open>An exception raised while the arguments are evaluated leaves the rest unevaluated.\<close>

definition raise_or :: "py_error + 'a \<Rightarrow> ('a \<Rightarrow> py_error + 'b) \<Rightarrow> py_error + 'b" where
  "raise_or m f = (case m of Inl e \<Rightarrow> Inl e | Inr x \<Rightarrow> f x)"

text \<open>
  \<^verbatim>\<open>Venue(google_place_id=row.get('google_place_id'), ...)\<close>: the keyword arguments in
  the order of the call; an attribute the call does not name is \<^verbatim>\<open>None\<close> on the new object.
\<close>

definition Venue :: "parsers \<Rightarrow> row \<Rightarrow> py_error + venue" where
  "Venue E r =
    raise_or (float_if_notna E r ''osm_id'') (\<lambda>osm_id'.
    raise_or (float_if_notna E r ''google_lat'') (\<lambda>google_lat'.
    raise_or (float_if_notna E r ''google_lng'') (\<lambda>google_lng'.
    raise_or (float_if_notna E r ''latitude'') (\<lambda>latitude'.
    raise_or (float_if_notna E r ''longitude'') (\<lambda>longitude'.
    raise_or (float_if_notna E r ''google_rating'') (\<lambda>google_rating'.
    raise_or (int_if_notna E r ''google_user_ratings_total'') (\<lambda>google_user_ratings_total'.
    raise_or (int_if_notna E r ''google_price_level'') (\<lambda>google_price_level'.
    Inr \<lparr> venue_id = PNone,
          google_place_id = column_value (row_get r ''google_place_id''),
          google_name = column_value (row_get r ''google_name''),
          name = column_value (row_get r ''name''),
          osm_id = osm_id',
          osm_type = column_value (row_get r ''osm_type''),
          amenity = column_value (row_get r ''amenity''),
          cuisine = column_value (row_get r ''cuisine''),
          search_type = column_value (row_get r ''search_type''),
          google_phone = column_value (row_get r ''google_phone''),
          google_phone_intl = column_value (row_get r ''google_phone_intl''),
          phone = column_value (row_get r ''phone''),
          google_website = column_value (row_get r ''google_website''),
          website = column_value (row_get r ''website''),
          google_vicinity = column_value (row_get r ''google_vicinity''),
          address = column_value (row_get r ''address''),
          housenumber = column_value (row_get r ''housenumber''),
          postcode = column_value (row_get r ''postcode''),
          search_ward = column_value (row_get r ''search_ward''),
          search_postcode_sector = column_value (row_get r ''search_postcode_sector''),
          search_constituency = column_value (row_get r ''search_constituency''),
          google_lat = google_lat',
          google_lng = google_lng',
          latitude = latitude',
          longitude = longitude',
          google_rating = google_rating',
          google_user_ratings_total = google_user_ratings_total',
          google_price_level = google_price_level',
          business_status = column_value (row_get r ''business_status''),
          validated = bool_if_notna r ''validated'',
          data_source = column_value (row_get r ''data_source''),
          is_chain = bool_if_notna r ''is_chain'',
          opening_hours = column_value (row_get r ''opening_hours''),
          google_opening_hours = column_value (row_get r ''google_opening_hours''),
          outdoor_seating = column_value (row_get r ''outdoor_seating''),
          takeaway = column_value (row_get r ''takeaway''),
          delivery = column_value (row_get r ''delivery''),
          wheelchair = column_value (row_get r ''wheelchair''),
          google_types = column_value (row_get r ''google_types''),
          google_photo_reference = column_value (row_get r ''google_photo_reference''),
          visited = PNone,
          visit_date = PNone,
          interest_status = PNone,
          is_priority = PNone,
          notes = PNone,
          created_at = PNone,
          updated_at = PNone \<rparr>))))))))"

text \<open>
  The query \<^verbatim>\<open>filter(Venue.google_place_id == key).first()\<close>. Comparing with \<^verbatim>\<open>None\<close> is
  rendered \<^verbatim>\<open>IS NULL\<close>; a NaN key is bound as NULL, and \<^verbatim>\<open>= NULL\<close> holds of no row.
\<close>

fun existing_venue :: "database \<Rightarrow> cell option \<Rightarrow> venue option" where
  "existing_venue db (Some NaN) = None"
| "existing_venue db key = find (\<lambda>v. google_place_id v = column_value key) db"

text \<open>The next value of the autoincrementing key: one more than the largest in the table.\<close>

fun largest_id :: "database \<Rightarrow> int" where
  "largest_id [] = 0"
| "largest_id (v # vs) =
     (case venue_id v of PInt i \<Rightarrow> max i (largest_id vs) | _ \<Rightarrow> largest_id vs)"

text \<open>
  \<^verbatim>\<open>session.add(venue)\<close>, flushed by the next query or by the final commit: the INSERT
  assigns the key and fills the columns that declare a \<^verbatim>\<open>default\<close> and were not set. The
  two timestamps are two calls of \<^verbatim>\<open>datetime.utcnow\<close>.
\<close>

definition session_add :: "database \<Rightarrow> datetime \<Rightarrow> datetime \<Rightarrow> venue \<Rightarrow> database" where
  "session_add db t1 t2 v =
     db @ [v\<lparr> venue_id := PInt (largest_id db + 1),
              visited := PBool False,
              is_priority := PBool False,
              created_at := PDateTime t1,
              updated_at := PDateTime t2 \<rparr>]"

text \<open>
  The loop over \<^verbatim>\<open>df.iterrows()\<close>. The state is the table, the number of clock readings
  taken so far, \<^verbatim>\<open>count\<close> and \<^verbatim>\<open>errors\<close>; \<open>clock k\<close> is the \<open>k\<close>-th reading of
  \<^verbatim>\<open>datetime.utcnow()\<close>.
\<close>

fun import_rows ::
  "parsers \<Rightarrow> (nat \<Rightarrow> datetime) \<Rightarrow> row list \<Rightarrow> database \<Rightarrow> nat \<Rightarrow> nat \<Rightarrow> nat \<Rightarrow>
   database \<times> nat \<times> nat" where
  "import_rows E clock [] db k count errors = (db, count, errors)"
| "import_rows E clock (r # rest) db k count errors =
     (case existing_venue db (row_get r ''google_place_id'') of
        Some existing \<Rightarrow> import_rows E clock rest db k count errors
      | None \<Rightarrow>
          (case Venue E r of
             Inl e \<Rightarrow> import_rows E clock rest db k count (errors + 1)
           | Inr venue \<Rightarrow>
               import_rows E clock rest
                 (session_add db (clock k) (clock (k + 1)) venue) (k + 2) (count + 1) errors))"

definition import_from_csv ::
  "parsers \<Rightarrow> (nat \<Rightarrow> datetime) \<Rightarrow> database \<Rightarrow> row list \<Rightarrow> database \<times> nat \<times> nat" where
  "import_from_csv E clock db df = import_rows E clock df db 0 0 0"

section \<open>Helper functions\<close>

subsection \<open>calculate_distance\<close>

definition radians :: "real \<Rightarrow> real" where
  "radians x = x * pi / 180"

text \<open>
  Python's \<^verbatim>\<open>round(x, 2)\<close>: to the nearest hundredth, a tie going to the even neighbour.
\<close>

definition round_half_even :: "real \<Rightarrow> int" where
  "round_half_even x =
     (let f = \<lfloor>x\<rfloor>; d = x - real_of_int f
      in if d < 1 / 2 then f
         else if 1 / 2 < d then f + 1
         else if even f then f else f + 1)"

definition py_round2 :: "real \<Rightarrow> real" where
  "py_round2 x = real_of_int (round_half_even (x * 100)) / 100"

text \<open>\<^verbatim>\<open>not all([lat1, lon1, lat2, lon2])\<close>: an argument is falsy when it is \<^verbatim>\<open>None\<close> or zero.\<close>

definition falsy_num :: "real option \<Rightarrow> bool" where
  "falsy_num x = (case x of None \<Rightarrow> True | Some r \<Rightarrow> r = 0)"

text \<open>
  \<^verbatim>\<open>math.sqrt\<close> raises on a negative argument and \<^verbatim>\<open>math.asin\<close> outside \<open>[-1, 1]\<close>.
\<close>

definition calculate_distance ::
  "real option \<Rightarrow> real option \<Rightarrow> real option \<Rightarrow> real option \<Rightarrow> py_error + real option" where
  "calculate_distance lat1 lon1 lat2 lon2 =
    (if falsy_num lat1 \<or> falsy_num lon1 \<or> falsy_num lat2 \<or> falsy_num lon2 then Inr None
     else
       (case (lat1, lon1, lat2, lon2) of
          (Some a1, Some o1, Some a2, Some o2) \<Rightarrow>
            (let R = 3959;
                 lat1' = radians a1; lon1' = radians o1;
                 lat2' = radians a2; lon2' = radians o2;
                 dlat = lat2' - lat1';
                 dlon = lon2' - lon1';
                 a = (sin (dlat / 2))\<^sup>2 + cos lat1' * cos lat2' * (sin (dlon / 2))\<^sup>2
             in if a < 0 \<or> 1 < sqrt a then Inl ValueError
                else Inr (Some (py_round2 (R * (2 * arcsin (sqrt a))))))
        | _ \<Rightarrow> Inr None))"

section \<open>The export page\<close>

text \<open>\<^verbatim>\<open>strftime('%Y-%m-%d %H:%M:%S')\<close>: zero-padded decimal fields.\<close>

definition digit :: "nat \<Rightarrow> char" where
  "digit n = ''0123456789'' ! (n mod 10)"

definition pad2 :: "nat \<Rightarrow> string" where
  "pad2 n = [digit (n div 10), digit n]"

definition pad4 :: "nat \<Rightarrow> string" where
  "pad4 n = [digit (n div 1000), digit (n div 100), digit (n div 10), digit n]"

definition strftime :: "datetime \<Rightarrow> string" where
  "strftime d =
     pad4 (year d) @ ''-'' @ pad2 (month d) @ ''-'' @ pad2 (day d) @ '' '' @
     pad2 (hour d) @ '':'' @ pad2 (minute d) @ '':'' @ pad2 (second d)"

text \<open>
  \<^verbatim>\<open>v.visit_date.strftime(...) if v.visit_date else None\<close>: a truthy value that is not a
  \<^verbatim>\<open>datetime\<close> has no \<^verbatim>\<open>strftime\<close>.
\<close>

definition visit_date_text :: "pyval \<Rightarrow> py_error + pyval" where
  "visit_date_text x =
     (if truthy x
      then (case x of PDateTime d \<Rightarrow> Inr (PStr (strftime d)) | _ \<Rightarrow> Inl AttributeError)
      else Inr PNone)"

text \<open>The dictionary built for one venue, as its items in order.\<close>

definition export_record :: "venue \<Rightarrow> py_error + (string \<times> pyval) list" where
  "export_record v =
    raise_or (visit_date_text (visit_date v)) (\<lambda>visit_date'.
    Inr [ (''ID'', venue_id v),
          (''Name'', google_name v),
          (''Type'', amenity v),
          (''Cuisine'', cuisine v),
          (''Ward'', search_ward v),
          (''Postcode'', postcode v),
          (''Postcode Sector'', search_postcode_sector v),
          (''Address'', py_or (google_vicinity v) (address v)),
          (''Phone'', py_or (google_phone v) (phone v)),
          (''Website'', py_or (google_website v) (website v)),
          (''Rating'', google_rating v),
          (''Total Reviews'', google_user_ratings_total v),
          (''Price Level'', google_price_level v),
          (''Latitude'', google_lat v),
          (''Longitude'', google_lng v),
          (''Business Status'', business_status v),
          (''Visited'', visited v),
          (''Visit Date'', visit_date'),
          (''Interest Status'', interest_status v),
          (''Priority'', is_priority v),
          (''Notes'', notes v),
          (''Data Source'', data_source v) ])"

fun export_records :: "venue list \<Rightarrow> py_error + (string \<times> pyval) list list" where
  "export_records [] = Inr []"
| "export_records (v # vs) =
     raise_or (export_record v) (\<lambda>d. raise_or (export_records vs) (\<lambda>ds. Inr (d # ds)))"

text \<open>
  \<^verbatim>\<open>pd.DataFrame(list of dicts)\<close>, for dictionaries with the same keys: the keys are the
  column labels, each dictionary a row. \<^verbatim>\<open>to_csv(index=False)\<close> writes the labels as the
  header line and then one line per row; the model keeps the table.
\<close>

record dataframe =
  columns :: "string list"
  data_rows :: "pyval list list"

definition DataFrame :: "(string \<times> pyval) list list \<Rightarrow> dataframe" where
  "DataFrame ds =
     \<lparr> columns = (case ds of [] \<Rightarrow> [] | d # _ \<Rightarrow> map fst d),
       data_rows = map (map snd) ds \<rparr>"

text \<open>
  What the page shows below the preview: the download button carrying the file and the
  success message, or the warning.
\<close>

datatype export_outcome =
    Download_button dataframe string
  | Warning string

text \<open>The block \<^verbatim>\<open>if export_venues: ... else: st.warning(...)\<close>.\<close>

definition export_block :: "venue list \<Rightarrow> py_error + export_outcome" where
  "export_block export_venues =
    (if export_venues \<noteq> []
     then raise_or (export_records export_venues) (\<lambda>ds.
            Inr (Download_button (DataFrame ds) ''text/csv''))
     else Inr (Warning ''No venues match the selected criteria''))"

section \<open>Sample values\<close>

text \<open>\<^verbatim>\<open>Venue()\<close> with no keyword argument: every attribute is \<^verbatim>\<open>None\<close>.\<close>

definition blank_venue :: venue where
  "blank_venue =
     \<lparr> venue_id = PNone, google_place_id = PNone, google_name = PNone, name = PNone,
       osm_id = PNone, osm_type = PNone, amenity = PNone, cuisine = PNone,
       search_type = PNone, google_phone = PNone, google_phone_intl = PNone, phone = PNone,
       google_website = PNone, website = PNone, google_vicinity = PNone, address = PNone,
       housenumber = PNone, postcode = PNone, search_ward = PNone,
       search_postcode_sector = PNone, search_constituency = PNone, google_lat = PNone,
       google_lng = PNone, latitude = PNone, longitude = PNone, google_rating = PNone,
       google_user_ratings_total = PNone, google_price_level = PNone,
       business_status = PNone, validated = PNone, data_source = PNone, is_chain = PNone,
       opening_hours = PNone, google_opening_hours = PNone, outdoor_seating = PNone,
       takeaway = PNone, delivery = PNone, wheelchair = PNone, google_types = PNone,
       google_photo_reference = PNone, visited = PNone, visit_date = PNone,
       interest_status = PNone, is_priority = PNone, notes = PNone, created_at = PNone,
       updated_at = PNone \<rparr>"

text \<open>The three venues of the filter example.\<close>

definition clifton_good :: venue where
  "clifton_good = blank_venue\<lparr> venue_id := PInt 1, google_rating := PFloat 4.5,
     search_ward := PStr ''Clifton'', business_status := PStr ''OPERATIONAL'' \<rparr>"

definition clifton_poor :: venue where
  "clifton_poor = blank_venue\<lparr> venue_id := PInt 2, google_rating := PFloat 3.0,
     search_ward := PStr ''Clifton'', business_status := PStr ''OPERATIONAL'' \<rparr>"

definition redland_closed :: venue where
  "redland_closed = blank_venue\<lparr> venue_id := PInt 3, google_rating := PFloat 4.8,
     search_ward := PStr ''Redland'', business_status := PStr ''CLOSED'' \<rparr>"

text \<open>
  A moment in time, a clock that ticks one second per reading, and parsers that reject
  every string.
\<close>

definition noon :: datetime where
  "noon = \<lparr> year = 2026, month = 2, day = 14, hour = 12, minute = 0, second = 0,
            microsecond = 0 \<rparr>"

definition ticking :: "nat \<Rightarrow> datetime" where
  "ticking k = noon\<lparr> second := k mod 60 \<rparr>"

definition no_strings :: parsers where
  "no_strings = \<lparr> float_of_str = (\<lambda>s. None), int_of_str = (\<lambda>s. None) \<rparr>"

text \<open>
  Rows of an uploaded file: one that also carries columns named like the survey fields, one
  whose rating is not a number, and one whose \<^verbatim>\<open>google_place_id\<close> cell is empty.
\<close>

definition crown_row :: row where
  "crown_row = [(''google_place_id'', Cell (PStr ''ChIJ-crown'')),
                (''google_name'', Cell (PStr ''The Crown'')),
                (''google_rating'', Cell (PFloat 4.5)),
                (''visited'', Cell (PBool True)),
                (''visit_date'', Cell (PStr ''2026-01-05 10:00:00'')),
                (''interest_status'', Cell (PStr ''interested'')),
                (''is_priority'', Cell (PBool True)),
                (''notes'', Cell (PStr ''spoke to the owner''))]"

definition bad_rating_row :: row where
  "bad_rating_row = [(''google_place_id'', Cell (PStr ''ChIJ-swan'')),
                     (''google_name'', Cell (PStr ''The Swan'')),
                     (''google_rating'', Cell (PStr ''n/a''))]"

definition no_id_row :: row where
  "no_id_row = [(''google_place_id'', NaN), (''google_name'', Cell (PStr ''Corner Cafe''))]"

text \<open>A venue that has both variants of address, phone and website.\<close>

definition whiteladies :: venue where
  "whiteladies = blank_venue\<lparr> venue_id := PInt 7,
     google_vicinity := PStr ''Whiteladies Rd, Bristol'', address := PStr ''12 Whiteladies Road'',
     google_phone := PStr ''0117 496 0000'', phone := PStr ''+44 117 496 0001'',
     google_website := PStr ''https://maps.example/whiteladies'',
     website := PStr ''https://whiteladies.example'' \<rparr>"

section \<open>Auxiliary predicates\<close>

text \<open>
  The conjunction of the criteria of \<^verbatim>\<open>filter_venues\<close> other than the business status,
  read off the chain of \<^verbatim>\<open>query.filter\<close> calls; the proofs below use it to name what the
  seven later filters keep.
\<close>

definition others ::
  "string option arg \<Rightarrow> string option arg \<Rightarrow> string option arg \<Rightarrow> string option arg \<Rightarrow>
   real option arg \<Rightarrow> bool option arg \<Rightarrow> string option arg \<Rightarrow> venue \<Rightarrow> bool" where
  "others w p a c r vi i v =
    ((case default_arg None w of None \<Rightarrow> True
        | Some s \<Rightarrow> s = [] \<or> s = ''All'' \<or> search_ward v = PStr s)
     \<and> (case default_arg None p of None \<Rightarrow> True
        | Some s \<Rightarrow> s = [] \<or> s = ''All'' \<or> search_postcode_sector v = PStr s)
     \<and> (case default_arg None a of None \<Rightarrow> True
        | Some s \<Rightarrow> s = [] \<or> s = ''All'' \<or> amenity v = PStr s)
     \<and> (case default_arg None c of None \<Rightarrow> True
        | Some s \<Rightarrow> s = [] \<or> s = ''All'' \<or> cuisine v = PStr s)
     \<and> (case default_arg None r of None \<Rightarrow> True
        | Some x \<Rightarrow> x \<le> 0 \<or> num_ge (google_rating v) x)
     \<and> (case default_arg None vi of None \<Rightarrow> True
        | Some x \<Rightarrow> visited v = PBool x)
     \<and> (case default_arg None i of None \<Rightarrow> True
        | Some s \<Rightarrow> s = [] \<or> interest_status v = PStr s))"

text \<open>
  A row is settled in a table when the import loop passes over it without adding a record:
  its key is found, or building the venue raises.
\<close>

definition settled :: "parsers \<Rightarrow> database \<Rightarrow> row \<Rightarrow> bool" where
  "settled E db r =
     (existing_venue db (row_get r ''google_place_id'') \<noteq> None \<or> (\<exists>err. Venue E r = Inl err))"

section \<open>Filtering\<close>

lemma step_truthy:
  "(if x \<noteq> None \<and> x \<noteq> Some [] then where_str col x q else q)
     = filter (\<lambda>v. case x of None \<Rightarrow> True | Some s \<Rightarrow> s = [] \<or> col v = PStr s) q"
  by (cases x) (auto simp: where_str_def where_eq_def)

lemma step_chosen:
  "(if chosen x then where_str col x q else q)
     = filter (\<lambda>v. case x of None \<Rightarrow> True
                  | Some s \<Rightarrow> s = [] \<or> s = ''All'' \<or> col v = PStr s) q"
  by (cases x) (auto simp: where_str_def where_eq_def chosen_def)

lemma step_rating:
  "(case x of None \<Rightarrow> q | Some r \<Rightarrow> if r \<noteq> 0 \<and> r > 0 then where_ge col r q else q)
     = filter (\<lambda>v. case x of None \<Rightarrow> True | Some r \<Rightarrow> r \<le> 0 \<or> num_ge (col v) r) q"
  by (cases x) (auto simp: where_ge_def intro: filter_cong)

lemma step_visited:
  "(case x of None \<Rightarrow> q | Some b \<Rightarrow> where_eq col (PBool b) q)
     = filter (\<lambda>v. case x of None \<Rightarrow> True | Some b \<Rightarrow> col v = PBool b) q"
  by (cases x) (auto simp: where_eq_def)

lemma filter_venues_split:
  "filter_venues db w p a c r vi i b =
     filter (others w p a c r vi i)
       (filter (\<lambda>v. case default_arg (Some ''OPERATIONAL'') b of None \<Rightarrow> True
                    | Some s \<Rightarrow> s = [] \<or> business_status v = PStr s) db)"
  unfolding filter_venues_def Let_def
  apply (simp only: step_truthy step_chosen step_rating step_visited)
  apply (simp only: filter_filter others_def conj_assoc)
  done

lemma others_business_status:
  "others w p a c r vi i (v\<lparr>business_status := x\<rparr>) = others w p a c r vi i v"
  by (simp add: others_def cong: option.case_cong)

text \<open>
  C1. On a store of exactly three venues, the first rated 4.5 in ward Clifton, the second
  rated 3.0 in ward Clifton, both OPERATIONAL, the third rated 4.8 in ward Redland and
  CLOSED, \<^verbatim>\<open>filter_venues(ward='Clifton', min_rating=4.0)\<close> returns exactly the first venue
  and \<^verbatim>\<open>filter_venues()\<close> returns exactly the first two. The other attributes of the three
  venues are arbitrary.
\<close>

theorem filter_example:
  assumes "google_rating v1 = PFloat 4.5" and "search_ward v1 = PStr ''Clifton''"
      and "business_status v1 = PStr ''OPERATIONAL''"
      and "google_rating v2 = PFloat 3.0" and "search_ward v2 = PStr ''Clifton''"
      and "business_status v2 = PStr ''OPERATIONAL''"
      and "google_rating v3 = PFloat 4.8" and "search_ward v3 = PStr ''Redland''"
      and "business_status v3 = PStr ''CLOSED''"
  shows "filter_venues [v1, v2, v3] (Passed (Some ''Clifton'')) Omitted Omitted Omitted
           (Passed (Some 4.0)) Omitted Omitted Omitted = [v1]
       \<and> filter_venues [v1, v2, v3] Omitted Omitted Omitted Omitted
           Omitted Omitted Omitted Omitted = [v1, v2]"
  using assms
  by (simp add: filter_venues_def Let_def default_arg_def where_str_def where_eq_def
        where_ge_def chosen_def)

theorem filter_example_witness:
  "google_rating clifton_good = PFloat 4.5 \<and> search_ward clifton_good = PStr ''Clifton''
   \<and> business_status clifton_good = PStr ''OPERATIONAL''
   \<and> google_rating clifton_poor = PFloat 3.0 \<and> search_ward clifton_poor = PStr ''Clifton''
   \<and> business_status clifton_poor = PStr ''OPERATIONAL''
   \<and> google_rating redland_closed = PFloat 4.8 \<and> search_ward redland_closed = PStr ''Redland''
   \<and> business_status redland_closed = PStr ''CLOSED''
   \<and> filter_venues [clifton_good, clifton_poor, redland_closed] (Passed (Some ''Clifton''))
        Omitted Omitted Omitted (Passed (Some 4.0)) Omitted Omitted Omitted = [clifton_good]
   \<and> filter_venues [clifton_good, clifton_poor, redland_closed] Omitted Omitted Omitted
        Omitted Omitted Omitted Omitted Omitted = [clifton_good, clifton_poor]"
proof -
  have h: "google_rating clifton_good = PFloat 4.5" "search_ward clifton_good = PStr ''Clifton''"
    "business_status clifton_good = PStr ''OPERATIONAL''"
    "google_rating clifton_poor = PFloat 3.0" "search_ward clifton_poor = PStr ''Clifton''"
    "business_status clifton_poor = PStr ''OPERATIONAL''"
    "google_rating redland_closed = PFloat 4.8" "search_ward redland_closed = PStr ''Redland''"
    "business_status redland_closed = PStr ''CLOSED''"
    by (simp_all add: clifton_good_def clifton_poor_def redland_closed_def)
  from filter_example [OF h] h show ?thesis by simp
qed

text \<open>
  C2. The business-status argument of \<^verbatim>\<open>filter_venues\<close> has three states. Left out, the
  call returns only venues whose \<^verbatim>\<open>business_status\<close> is 'OPERATIONAL'. Passed as \<^verbatim>\<open>None\<close>
  (or as the empty string), the call puts no constraint on the business status: rewriting
  the business status of every venue of the store rewrites the result the same way and
  selects the same rows. The call that leaves the argument out returns the OPERATIONAL rows
  of the call that passes \<^verbatim>\<open>None\<close>, and on a store holding one CLOSED venue the two calls
  return different results.
\<close>

theorem business_status_tristate:
  "(\<forall>v\<in>set (filter_venues db w p a c r vi i Omitted). business_status v = PStr ''OPERATIONAL'')
   \<and> filter_venues (map (\<lambda>v. v\<lparr>business_status := f v\<rparr>) db) w p a c r vi i (Passed None)
        = map (\<lambda>v. v\<lparr>business_status := f v\<rparr>) (filter_venues db w p a c r vi i (Passed None))
   \<and> filter_venues db w p a c r vi i (Passed (Some []))
        = filter_venues db w p a c r vi i (Passed None)
   \<and> filter_venues db w p a c r vi i Omitted
        = filter (\<lambda>v. business_status v = PStr ''OPERATIONAL'')
            (filter_venues db w p a c r vi i (Passed None))
   \<and> filter_venues [redland_closed] Omitted Omitted Omitted Omitted Omitted Omitted Omitted
        Omitted
        \<noteq> filter_venues [redland_closed] Omitted Omitted Omitted Omitted Omitted Omitted Omitted
            (Passed None)"
proof (intro conjI)
  show "\<forall>v\<in>set (filter_venues db w p a c r vi i Omitted).
          business_status v = PStr ''OPERATIONAL''"
    by (simp add: filter_venues_split default_arg_def)
  show "filter_venues (map (\<lambda>v. v\<lparr>business_status := f v\<rparr>) db) w p a c r vi i (Passed None)
        = map (\<lambda>v. v\<lparr>business_status := f v\<rparr>) (filter_venues db w p a c r vi i (Passed None))"
    by (simp add: filter_venues_split default_arg_def filter_map comp_def
          others_business_status)
  show "filter_venues db w p a c r vi i (Passed (Some []))
          = filter_venues db w p a c r vi i (Passed None)"
    by (simp add: filter_venues_split default_arg_def)
  show "filter_venues db w p a c r vi i Omitted
        = filter (\<lambda>v. business_status v = PStr ''OPERATIONAL'')
            (filter_venues db w p a c r vi i (Passed None))"
    by (simp add: filter_venues_split default_arg_def conj_commute)
  show "filter_venues [redland_closed] Omitted Omitted Omitted Omitted Omitted Omitted Omitted
          Omitted
        \<noteq> filter_venues [redland_closed] Omitted Omitted Omitted Omitted Omitted Omitted Omitted
            (Passed None)"
    by (simp add: filter_venues_split default_arg_def others_def redland_closed_def)
qed

theorem business_status_tristate_witness:
  "map business_status (filter_venues [clifton_good, clifton_poor, redland_closed]
        Omitted Omitted Omitted Omitted Omitted Omitted Omitted Omitted)
        = [PStr ''OPERATIONAL'', PStr ''OPERATIONAL'']
   \<and> filter_venues [clifton_good, clifton_poor, redland_closed]
        Omitted Omitted Omitted Omitted Omitted Omitted Omitted Omitted
        = [clifton_good, clifton_poor]
   \<and> filter_venues [clifton_good, clifton_poor, redland_closed]
        Omitted Omitted Omitted Omitted Omitted Omitted Omitted (Passed None)
        = [clifton_good, clifton_poor, redland_closed]"
  using business_status_tristate [of "[clifton_good, clifton_poor, redland_closed]"
      Omitted Omitted Omitted Omitted Omitted Omitted Omitted]
  by (simp add: filter_venues_split default_arg_def others_def
        clifton_good_def clifton_poor_def redland_closed_def)

section \<open>Updating\<close>

lemma replace_by_id_member:
  "find (\<lambda>v. venue_id v = PInt vid) db = Some v \<Longrightarrow> w \<in> set (replace_by_id vid w db)"
  by (induction db) (auto split: if_splits)

lemma replace_by_id_length: "length (replace_by_id vid w db) = length db"
  by (induction db) auto

text \<open>
  C4. For every store and every id that no record of the store has, \<^verbatim>\<open>update_venue\<close>
  returns \<^verbatim>\<open>None\<close> (it raises nothing), and the store after the call is the store before
  it: no field of any record is written and no \<^verbatim>\<open>updated_at\<close> is refreshed.
\<close>

theorem update_unknown_id:
  "\<forall>v\<in>set db. venue_id v \<noteq> PInt vid \<Longrightarrow> update_venue db now vid updates = (db, None)"
proof -
  assume "\<forall>v\<in>set db. venue_id v \<noteq> PInt vid"
  then have "get_venue_by_id db vid = None"
    by (simp add: get_venue_by_id_def find_None_iff)
  then show ?thesis by (simp add: update_venue_def)
qed

theorem update_unknown_id_witness:
  "venue_id clifton_good \<noteq> PInt 9999 \<and> venue_id clifton_poor \<noteq> PInt 9999
   \<and> update_venue [clifton_good, clifton_poor] noon 9999
        [(''visited'', PBool True), (''notes'', PStr ''called'')]
      = ([clifton_good, clifton_poor], None)"
proof -
  have h: "\<forall>v\<in>set [clifton_good, clifton_poor]. venue_id v \<noteq> PInt 9999"
    by (simp add: clifton_good_def clifton_poor_def)
  from update_unknown_id [OF h] h show ?thesis by simp
qed

text \<open>
  C10. For every id that a record of the store has, \<^verbatim>\<open>update_venue\<close> returns that record
  with the caller's assignments applied and then \<^verbatim>\<open>updated_at\<close> set to the time of the
  call, whatever the dictionary holds under the key 'updated_at'; the returned record is
  the one now in the store, which has as many records as before.
\<close>

theorem update_sets_updated_at:
  assumes "get_venue_by_id db vid = Some v"
      and "update_venue db now vid updates = (db', r)"
  shows "\<exists>v'. r = Some v' \<and> v' = (apply_updates v updates)\<lparr>updated_at := PDateTime now\<rparr>
       \<and> updated_at v' = PDateTime now \<and> v' \<in> set db' \<and> length db' = length db"
  using assms
  by (auto simp: update_venue_def Let_def get_venue_by_id_def replace_by_id_member
        replace_by_id_length)

theorem update_sets_updated_at_witness:
  "get_venue_by_id [clifton_good, clifton_poor] 2 = Some clifton_poor
   \<and> update_venue [clifton_good, clifton_poor] noon 2
        [(''updated_at'', PStr ''1999-01-01''), (''visited'', PBool True)]
      = ([clifton_good, clifton_poor\<lparr>visited := PBool True, updated_at := PDateTime noon\<rparr>],
         Some (clifton_poor\<lparr>visited := PBool True, updated_at := PDateTime noon\<rparr>))
   \<and> updated_at (clifton_poor\<lparr>visited := PBool True, updated_at := PDateTime noon\<rparr>)
      = PDateTime noon"
proof -
  have h1: "get_venue_by_id [clifton_good, clifton_poor] 2 = Some clifton_poor"
    by (simp add: get_venue_by_id_def clifton_good_def clifton_poor_def)
  have h2: "update_venue [clifton_good, clifton_poor] noon 2
        [(''updated_at'', PStr ''1999-01-01''), (''visited'', PBool True)]
      = ([clifton_good, clifton_poor\<lparr>visited := PBool True, updated_at := PDateTime noon\<rparr>],
         Some (clifton_poor\<lparr>visited := PBool True, updated_at := PDateTime noon\<rparr>))"
  proof -
    have ids: "venue_id clifton_good = PInt 1" "venue_id clifton_poor = PInt 2"
      by (simp_all add: clifton_good_def clifton_poor_def)
    show ?thesis
      by (simp add: update_venue_def h1 Let_def setattr_def ids)
  qed
  from update_sets_updated_at [OF h1 h2] h1 h2 show ?thesis by simp
qed

section \<open>Statistics\<close>

text \<open>
  C8. For every store \<^verbatim>\<open>get_statistics\<close> returns a result and never raises: its
  \<^verbatim>\<open>conversion_rate\<close> is \<open>interested / visited * 100\<close> when \<open>visited > 0\<close> and \<open>0\<close> when
  \<open>visited = 0\<close>, where \<open>visited\<close> counts the records with \<^verbatim>\<open>visited == True\<close> and
  \<open>interested\<close> those with \<^verbatim>\<open>interest_status == 'interested'\<close>; the division is reached
  only with a divisor that is not zero.
\<close>

theorem conversion_rate_safe:
  "\<exists>st. get_statistics db = Inr st
     \<and> stat_visited st = count_where (\<lambda>v. visited v = PBool True) db
     \<and> interested st = count_where (\<lambda>v. interest_status v = PStr ''interested'') db
     \<and> conversion_rate st =
          (if stat_visited st > 0
           then real (interested st) / real (stat_visited st) * 100 else 0)"
  by (simp add: get_statistics_def Let_def py_truediv_def)

theorem conversion_rate_safe_witness:
  "\<exists>st. get_statistics
           [clifton_good\<lparr>visited := PBool True, interest_status := PStr ''interested''\<rparr>,
            clifton_poor\<lparr>visited := PBool True\<rparr>, redland_closed] = Inr st
     \<and> stat_visited st = 2 \<and> interested st = 1 \<and> conversion_rate st = 50"
  using conversion_rate_safe
    [of "[clifton_good\<lparr>visited := PBool True, interest_status := PStr ''interested''\<rparr>,
          clifton_poor\<lparr>visited := PBool True\<rparr>, redland_closed]"]
  by (auto simp: count_where_def clifton_good_def clifton_poor_def redland_closed_def
        blank_venue_def)

section \<open>Importing\<close>

lemma find_append_Some: "find P xs = Some x \<Longrightarrow> find P (xs @ ys) = Some x"
  by (induction xs) auto

lemma existing_venue_append:
  "existing_venue db key = Some e \<Longrightarrow> existing_venue (db @ xs) key = Some e"
  by (cases "(db, key)" rule: existing_venue.cases) (auto simp: find_append_Some)

lemma raise_or_Inr:
  "raise_or m f = Inr y \<Longrightarrow> (\<And>x. m = Inr x \<Longrightarrow> f x = Inr y \<Longrightarrow> P) \<Longrightarrow> P"
  by (cases m) (auto simp: raise_or_def)

lemma Venue_fields:
  assumes "Venue E r = Inr v"
  shows "google_place_id v = column_value (row_get r ''google_place_id'')
    \<and> visited v = PNone \<and> visit_date v = PNone \<and> interest_status v = PNone
    \<and> is_priority v = PNone \<and> notes v = PNone"
  using assms unfolding Venue_def
  by (elim raise_or_Inr) auto

lemma import_rows_appends:
  "import_rows E clock df db k c e = (db', c', e') \<Longrightarrow>
     \<exists>new. db' = db @ new \<and> c' = c + length new \<and>
       (\<forall>v\<in>set new. visited v = PBool False \<and> visit_date v = PNone
            \<and> interest_status v = PNone \<and> is_priority v = PBool False \<and> notes v = PNone)"
proof (induction df arbitrary: db k c e)
  case Nil
  then show ?case by simp
next
  case (Cons r rest)
  show ?case
  proof (cases "existing_venue db (row_get r ''google_place_id'')")
    case (Some ex)
    with Cons.prems have "import_rows E clock rest db k c e = (db', c', e')" by simp
    from Cons.IH[OF this] show ?thesis .
  next
    case None
    show ?thesis
    proof (cases "Venue E r")
      case (Inl err)
      with None Cons.prems have "import_rows E clock rest db k c (e + 1) = (db', c', e')"
        by simp
      from Cons.IH[OF this] show ?thesis .
    next
      case (Inr v)
      let ?db2 = "session_add db (clock k) (clock (k + 1)) v"
      from Inr None Cons.prems
      have "import_rows E clock rest ?db2 (k + 2) (c + 1) e = (db', c', e')" by simp
      from Cons.IH[OF this] obtain new where
        n: "db' = ?db2 @ new" "c' = c + 1 + length new"
        "\<forall>v\<in>set new. visited v = PBool False \<and> visit_date v = PNone
            \<and> interest_status v = PNone \<and> is_priority v = PBool False \<and> notes v = PNone"
        by blast
      obtain w where w: "?db2 = db @ [w]" "visited w = PBool False"
        "is_priority w = PBool False" "visit_date w = visit_date v"
        "interest_status w = interest_status v" "notes w = notes v"
        by (simp add: session_add_def)
      with Venue_fields[OF Inr] n show ?thesis
        by (intro exI[of _ "w # new"]) auto
    qed
  qed
qed

text \<open>
  C9. Every venue that \<^verbatim>\<open>import_from_csv\<close> creates starts with its survey fields at their
  defaults: \<^verbatim>\<open>visited\<close> false, \<^verbatim>\<open>visit_date\<close>, \<^verbatim>\<open>interest_status\<close> and \<^verbatim>\<open>notes\<close> null,
  \<^verbatim>\<open>is_priority\<close> false. This holds for every table, every list of rows and whatever
  columns the rows carry, those named like the survey fields included: the table after
  the import is the table before it followed by the new records, as many as the returned
  count, and each of them has the defaults.
\<close>

theorem imported_survey_defaults:
  assumes "import_from_csv E clock db df = (db', count, errors)"
  shows "\<exists>new. db' = db @ new \<and> length new = count \<and>
       (\<forall>v\<in>set new. visited v = PBool False \<and> visit_date v = PNone
            \<and> interest_status v = PNone \<and> is_priority v = PBool False \<and> notes v = PNone)"
  using import_rows_appends[OF assms[unfolded import_from_csv_def]] by auto

lemma existing_venue_Nil: "existing_venue [] key = None"
  by (cases "([]::database, key)" rule: existing_venue.cases) auto

lemma fresh_key_imported:
  "existing_venue db (row_get r ''google_place_id'') = None \<Longrightarrow> Venue E r = Inr v \<Longrightarrow>
   import_rows E clock [r] db k c e = (session_add db (clock k) (clock (k + 1)) v, c + 1, e)"
  by simp

lemma Venue_crown_row: "\<exists>v. Venue no_strings crown_row = Inr v"
  by (simp add: Venue_def raise_or_def float_if_notna_def int_if_notna_def row_get_def
        crown_row_def)

theorem imported_survey_defaults_witness:
  "fst (snd (import_from_csv no_strings ticking [] [crown_row])) = 1
   \<and> map visited (fst (import_from_csv no_strings ticking [] [crown_row])) = [PBool False]
   \<and> map visit_date (fst (import_from_csv no_strings ticking [] [crown_row])) = [PNone]
   \<and> map interest_status (fst (import_from_csv no_strings ticking [] [crown_row])) = [PNone]
   \<and> map is_priority (fst (import_from_csv no_strings ticking [] [crown_row])) = [PBool False]
   \<and> map notes (fst (import_from_csv no_strings ticking [] [crown_row])) = [PNone]"
proof -
  obtain v where v: "Venue no_strings crown_row = Inr v"
    using Venue_crown_row by blast
  define db' where "db' = session_add [] (ticking 0) (ticking 1) v"
  have run: "import_from_csv no_strings ticking [] [crown_row] = (db', 1, 0)"
    unfolding import_from_csv_def db'_def
    using fresh_key_imported[OF existing_venue_Nil v, of ticking 0 0 0] by simp
  from imported_survey_defaults [OF run] obtain new where
    n: "db' = new" "length new = 1"
       "\<forall>v\<in>set new. visited v = PBool False \<and> visit_date v = PNone
            \<and> interest_status v = PNone \<and> is_priority v = PBool False \<and> notes v = PNone"
    by auto
  from n(2) obtain x where "new = [x]"
    by (cases new) auto
  with n show ?thesis by (simp add: run)
qed

lemma settled_append: "settled E db r \<Longrightarrow> settled E (db @ xs) r"
  unfolding settled_def using existing_venue_append by fastforce

lemma find_last_key:
  "google_place_id w = x \<Longrightarrow> find (\<lambda>v. google_place_id v = x) (db @ [w]) \<noteq> None"
  by (induction db) auto

lemma existing_venue_find:
  "key \<noteq> Some NaN \<Longrightarrow>
   existing_venue db key = find (\<lambda>v. google_place_id v = column_value key) db"
  by (cases "(db, key)" rule: existing_venue.cases) auto

lemma session_add_settled:
  assumes "Venue E r = Inr v" and "row_get r ''google_place_id'' \<noteq> Some NaN"
  shows "settled E (session_add db t1 t2 v) r"
proof -
  define w where "w = v\<lparr> venue_id := PInt (largest_id db + 1), visited := PBool False,
              is_priority := PBool False, created_at := PDateTime t1,
              updated_at := PDateTime t2 \<rparr>"
  have gp: "google_place_id w = column_value (row_get r ''google_place_id'')"
    using Venue_fields[OF assms(1)] by (simp add: w_def)
  have sa: "session_add db t1 t2 v = db @ [w]"
    by (simp add: session_add_def w_def)
  have "find (\<lambda>v. google_place_id v = column_value (row_get r ''google_place_id''))
               (db @ [w]) \<noteq> None"
    using gp by (rule find_last_key)
  then have "existing_venue (db @ [w]) (row_get r ''google_place_id'') \<noteq> None"
    unfolding existing_venue_find[OF assms(2)] .
  then show ?thesis
    unfolding settled_def sa by (rule disjI1)
qed

lemma import_rows_settles:
  "import_rows E clock df db k c e = (db', c', e') \<Longrightarrow>
   \<forall>r\<in>set df. row_get r ''google_place_id'' \<noteq> Some NaN \<Longrightarrow>
   \<forall>r\<in>set df. settled E db' r"
proof (induction df arbitrary: db k c e)
  case Nil
  then show ?case by simp
next
  case (Cons r rest)
  have ext: "\<And>db2 k2 c2 e2. import_rows E clock rest db2 k2 c2 e2 = (db', c', e')
               \<Longrightarrow> \<exists>new. db' = db2 @ new"
    using import_rows_appends by blast
  from Cons.prems(2) have nn: "row_get r ''google_place_id'' \<noteq> Some NaN"
    and rest_nn: "\<forall>r\<in>set rest. row_get r ''google_place_id'' \<noteq> Some NaN" by auto
  show ?case
  proof (cases "existing_venue db (row_get r ''google_place_id'')")
    case (Some ex)
    with Cons.prems have run: "import_rows E clock rest db k c e = (db', c', e')" by simp
    from ext[OF run] obtain new where "db' = db @ new" by blast
    with Some have "settled E db' r"
      using settled_append[of E db r new] by (simp add: settled_def)
    with Cons.IH[OF run rest_nn] show ?thesis by simp
  next
    case None
    show ?thesis
    proof (cases "Venue E r")
      case (Inl err)
      with None Cons.prems
      have run: "import_rows E clock rest db k c (e + 1) = (db', c', e')" by simp
      from Inl have "settled E db' r" by (simp add: settled_def)
      with Cons.IH[OF run rest_nn] show ?thesis by simp
    next
      case (Inr v)
      let ?db2 = "session_add db (clock k) (clock (k + 1)) v"
      from Inr None Cons.prems
      have run: "import_rows E clock rest ?db2 (k + 2) (c + 1) e = (db', c', e')" by simp
      from ext[OF run] obtain new where "db' = ?db2 @ new" by blast
      with session_add_settled[OF Inr nn] have "settled E db' r"
        using settled_append by blast
      with Cons.IH[OF run rest_nn] show ?thesis by simp
    qed
  qed
qed

lemma import_rows_skips:
  "\<forall>r\<in>set df. settled E db r \<Longrightarrow>
   import_rows E clock df db k c e =
     (db, c, e + length (filter (\<lambda>r. existing_venue db (row_get r ''google_place_id'') = None) df))"
proof (induction df arbitrary: e)
  case Nil
  then show ?case by simp
next
  case (Cons r rest)
  then have IH: "\<And>e. import_rows E clock rest db k c e =
     (db, c, e + length (filter (\<lambda>r. existing_venue db (row_get r ''google_place_id'') = None) rest))"
    by simp
  from Cons.prems have s: "settled E db r" by simp
  show ?case
  proof (cases "existing_venue db (row_get r ''google_place_id'')")
    case (Some ex)
    then show ?thesis using IH by simp
  next
    case None
    with s obtain err where "Venue E r = Inl err" by (auto simp: settled_def)
    with None show ?thesis using IH by simp
  qed
qed

text \<open>
  C3. Import is idempotent on rows that have an identity: when no row of the file has an
  empty \<^verbatim>\<open>google_place_id\<close> cell, importing the file and then importing it again (at any
  later clock) leaves the table as the first import left it and returns an imported count
  of 0. On the second run a row whose key is in the table is skipped, counted neither as
  imported nor as an error; the errors counted are the rows whose key is still not in the
  table, which are the rows that raised.
\<close>

theorem reimport_imports_nothing:
  assumes "\<forall>r\<in>set df. row_get r ''google_place_id'' \<noteq> Some NaN"
      and "import_from_csv E clock db df = (db1, count1, errors1)"
  shows "import_from_csv E clock' db1 df =
           (db1, 0, length (filter (\<lambda>r. existing_venue db1 (row_get r ''google_place_id'') = None) df))"
  using import_rows_skips[OF import_rows_settles[OF assms(2)[unfolded import_from_csv_def] assms(1)],
      of clock' 0 0 0]
  by (simp add: import_from_csv_def)

lemma Venue_bad_rating_row: "Venue no_strings bad_rating_row = Inl ValueError"
  by (simp add: Venue_def raise_or_def float_if_notna_def row_get_def bad_rating_row_def
        no_strings_def)

lemma first_import_counts:
  "\<exists>db1. import_from_csv no_strings ticking [] [crown_row, bad_rating_row] = (db1, 1, 1)"
proof -
  obtain v where v: "Venue no_strings crown_row = Inr v"
    using Venue_crown_row by blast
  have gp: "google_place_id v = PStr ''ChIJ-crown''"
    using Venue_fields[OF v] by (simp add: row_get_def crown_row_def)
  have k: "row_get bad_rating_row ''google_place_id'' = Some (Cell (PStr ''ChIJ-swan''))"
    by (simp add: row_get_def bad_rating_row_def)
  have fresh: "existing_venue (session_add [] t1 t2 v)
                 (row_get bad_rating_row ''google_place_id'') = None" for t1 t2
    by (simp add: k session_add_def gp)
  show ?thesis
    by (simp add: import_from_csv_def existing_venue_Nil v fresh Venue_bad_rating_row)
qed

theorem reimport_imports_nothing_witness:
  "row_get crown_row ''google_place_id'' \<noteq> Some NaN
   \<and> row_get bad_rating_row ''google_place_id'' \<noteq> Some NaN
   \<and> snd (import_from_csv no_strings ticking [] [crown_row, bad_rating_row]) = (1, 1)
   \<and> fst (snd (import_from_csv no_strings ticking
         (fst (import_from_csv no_strings ticking [] [crown_row, bad_rating_row]))
         [crown_row, bad_rating_row])) = 0"
proof -
  have k: "row_get crown_row ''google_place_id'' \<noteq> Some NaN"
    "row_get bad_rating_row ''google_place_id'' \<noteq> Some NaN"
    by (simp_all add: row_get_def crown_row_def bad_rating_row_def)
  then have h: "\<forall>r\<in>set [crown_row, bad_rating_row]. row_get r ''google_place_id'' \<noteq> Some NaN"
    by simp
  obtain db1 where
    run: "import_from_csv no_strings ticking [] [crown_row, bad_rating_row] = (db1, 1, 1)"
    using first_import_counts by blast
  from reimport_imports_nothing [OF h run, of ticking] k show ?thesis
    by (simp add: run)
qed

text \<open>
  Without that condition the statement fails. A row whose \<^verbatim>\<open>google_place_id\<close> cell is empty
  carries NaN as its key; the query finds no record for it, on the first import and on
  every later one, so the second import of a file with one such row imports it again.
\<close>

lemma Venue_no_id_row: "\<exists>v. Venue no_strings no_id_row = Inr v"
  by (simp add: Venue_def raise_or_def float_if_notna_def int_if_notna_def row_get_def
        no_id_row_def)

lemma nan_key_imported:
  "row_get r ''google_place_id'' = Some NaN \<Longrightarrow> Venue E r = Inr v \<Longrightarrow>
   import_rows E clock [r] db k c e = (session_add db (clock k) (clock (k + 1)) v, c + 1, e)"
  by simp

theorem reimport_counterexample:
  "fst (snd (import_from_csv no_strings ticking
       (fst (import_from_csv no_strings ticking [] [no_id_row])) [no_id_row])) = 1"
proof -
  obtain v where v: "Venue no_strings no_id_row = Inr v"
    using Venue_no_id_row by blast
  have k: "row_get no_id_row ''google_place_id'' = Some NaN"
    by (simp add: row_get_def no_id_row_def)
  show ?thesis
    unfolding import_from_csv_def nan_key_imported[OF k v] by simp
qed

section \<open>Distance\<close>

text \<open>
  C5. The distance from a point to itself: \<^verbatim>\<open>calculate_distance(lat, lon, lat, lon)\<close> is 0
  for every latitude and longitude that are present and not zero, and \<^verbatim>\<open>None\<close> exactly when
  one of them is missing or falsy (\<^verbatim>\<open>None\<close> or 0); it raises nothing. The arithmetic is over
  the reals; at coincident points every intermediate value is exactly 0, in floating
  point as well.
\<close>

theorem distance_to_self:
  "calculate_distance lat lon lat lon
     = Inr (if falsy_num lat \<or> falsy_num lon then None else Some 0)"
proof (cases "falsy_num lat \<or> falsy_num lon")
  case True
  then show ?thesis by (auto simp: calculate_distance_def)
next
  case False
  then obtain a b where "lat = Some a" "lon = Some b"
    by (cases lat; cases lon) (auto simp: falsy_num_def)
  with False show ?thesis
    by (simp add: calculate_distance_def Let_def py_round2_def round_half_even_def)
qed

theorem distance_to_self_witness:
  "calculate_distance (Some 51.4545) (Some (- 2.5879)) (Some 51.4545) (Some (- 2.5879))
     = Inr (Some 0)
   \<and> calculate_distance (Some 0) (Some (- 2.5879)) (Some 0) (Some (- 2.5879)) = Inr None
   \<and> calculate_distance None (Some (- 2.5879)) None (Some (- 2.5879)) = Inr None"
  using distance_to_self [of "Some 51.4545" "Some (- 2.5879)"]
    distance_to_self [of "Some 0" "Some (- 2.5879)"]
    distance_to_self [of None "Some (- 2.5879)"]
  by (simp add: falsy_num_def)

section \<open>Exporting\<close>

lemma export_record_keys:
  "export_record v = Inr d \<Longrightarrow>
     map fst d = [''ID'', ''Name'', ''Type'', ''Cuisine'', ''Ward'', ''Postcode'',
       ''Postcode Sector'', ''Address'', ''Phone'', ''Website'', ''Rating'', ''Total Reviews'',
       ''Price Level'', ''Latitude'', ''Longitude'', ''Business Status'', ''Visited'',
       ''Visit Date'', ''Interest Status'', ''Priority'', ''Notes'', ''Data Source'']"
  unfolding export_record_def by (elim raise_or_Inr) auto

lemma export_records_shape:
  "export_records vs = Inr ds \<Longrightarrow>
     length ds = length vs \<and> (\<forall>d\<in>set ds. \<exists>v. export_record v = Inr d)"
proof (induction vs arbitrary: ds)
  case Nil
  then show ?case by simp
next
  case (Cons v vs)
  from Cons.prems obtain d ds' where
    p: "export_record v = Inr d" "export_records vs = Inr ds'" "ds = d # ds'"
    by (auto elim!: raise_or_Inr)
  with Cons.IH[OF p(2)] show ?case by auto
qed

text \<open>
  C6. Exporting an empty venue sequence raises no error and produces no file: the page
  shows the warning 'No venues match the selected criteria' and no download button. A
  table with the fixed column headers, and one row per venue, is produced only for a
  sequence that is not empty.
\<close>

theorem export_empty_warns:
  "export_block [] = Inr (Warning ''No venues match the selected criteria'')
   \<and> (vs \<noteq> [] \<longrightarrow> export_block vs = Inr out \<longrightarrow>
        (\<exists>df. out = Download_button df ''text/csv''
           \<and> columns df = [''ID'', ''Name'', ''Type'', ''Cuisine'', ''Ward'', ''Postcode'',
               ''Postcode Sector'', ''Address'', ''Phone'', ''Website'', ''Rating'',
               ''Total Reviews'', ''Price Level'', ''Latitude'', ''Longitude'',
               ''Business Status'', ''Visited'', ''Visit Date'', ''Interest Status'',
               ''Priority'', ''Notes'', ''Data Source'']
           \<and> length (data_rows df) = length vs))"
proof (intro conjI impI)
  show "export_block [] = Inr (Warning ''No venues match the selected criteria'')"
    by (simp add: export_block_def)
next
  assume ne: "vs \<noteq> []" and run: "export_block vs = Inr out"
  from run ne obtain ds where
    ds: "export_records vs = Inr ds" "out = Download_button (DataFrame ds) ''text/csv''"
    by (auto simp: export_block_def elim!: raise_or_Inr)
  from export_records_shape[OF ds(1)] have
    len: "length ds = length vs" and each: "\<forall>d\<in>set ds. \<exists>v. export_record v = Inr d"
    by auto
  from len ne obtain d rest where c: "ds = d # rest"
    by (cases ds) auto
  with each obtain v where "export_record v = Inr d" by auto
  from export_record_keys[OF this] c len ds(2)
  show "\<exists>df. out = Download_button df ''text/csv''
           \<and> columns df = [''ID'', ''Name'', ''Type'', ''Cuisine'', ''Ward'', ''Postcode'',
               ''Postcode Sector'', ''Address'', ''Phone'', ''Website'', ''Rating'',
               ''Total Reviews'', ''Price Level'', ''Latitude'', ''Longitude'',
               ''Business Status'', ''Visited'', ''Visit Date'', ''Interest Status'',
               ''Priority'', ''Notes'', ''Data Source'']
           \<and> length (data_rows df) = length vs"
    by (simp add: DataFrame_def)
qed

lemma visit_date_blank: "visit_date whiteladies = PNone"
  by (simp add: whiteladies_def blank_venue_def)

lemma export_whiteladies:
  "\<exists>d. export_block [whiteladies] = Inr (Download_button (DataFrame [d]) ''text/csv'')"
  by (simp add: export_block_def export_record_def raise_or_def visit_date_text_def
        visit_date_blank) (rule exI, rule refl)

theorem export_empty_warns_witness:
  "export_block [] = Inr (Warning ''No venues match the selected criteria'')
   \<and> [whiteladies] \<noteq> []
   \<and> (\<exists>df. export_block [whiteladies] = Inr (Download_button df ''text/csv'')
           \<and> columns df = [''ID'', ''Name'', ''Type'', ''Cuisine'', ''Ward'', ''Postcode'',
               ''Postcode Sector'', ''Address'', ''Phone'', ''Website'', ''Rating'',
               ''Total Reviews'', ''Price Level'', ''Latitude'', ''Longitude'',
               ''Business Status'', ''Visited'', ''Visit Date'', ''Interest Status'',
               ''Priority'', ''Notes'', ''Data Source'']
           \<and> length (data_rows df) = 1)"
proof -
  obtain d where run:
    "export_block [whiteladies] = Inr (Download_button (DataFrame [d]) ''text/csv'')"
    using export_whiteladies by blast
  from export_empty_warns [of "[whiteladies]" "Download_button (DataFrame [d]) ''text/csv''"] run
  show ?thesis by simp
qed

text \<open>
  The export of no venues is not a header-only file: the outcome is not a download of the
  table with the fixed headers and no rows.
\<close>

theorem export_empty_counterexample:
  "export_block [] \<noteq> Inr (Download_button
      \<lparr> columns = [''ID'', ''Name'', ''Type'', ''Cuisine'', ''Ward'', ''Postcode'',
               ''Postcode Sector'', ''Address'', ''Phone'', ''Website'', ''Rating'',
               ''Total Reviews'', ''Price Level'', ''Latitude'', ''Longitude'',
               ''Business Status'', ''Visited'', ''Visit Date'', ''Interest Status'',
               ''Priority'', ''Notes'', ''Data Source''],
        data_rows = [] \<rparr> ''text/csv'')"
  by (simp add: export_block_def)

text \<open>
  C7. For every venue whose \<^verbatim>\<open>visit_date\<close> is null or a \<^verbatim>\<open>datetime\<close>, the exported record
  exists and its Address, Phone and Website columns take the externally sourced field
  (\<^verbatim>\<open>google_vicinity\<close>, \<^verbatim>\<open>google_phone\<close>, \<^verbatim>\<open>google_website\<close>) when that field is truthy and
  fall back to the other one (\<^verbatim>\<open>address\<close>, \<^verbatim>\<open>phone\<close>, \<^verbatim>\<open>website\<close>) otherwise; its Visit Date
  is the timestamp formatted as \<^verbatim>\<open>%Y-%m-%d %H:%M:%S\<close>, and null when \<^verbatim>\<open>visit_date\<close> is null.
\<close>

theorem export_contact_columns:
  assumes "visit_date v = PNone \<or> (\<exists>t. visit_date v = PDateTime t)"
  shows "\<exists>d. export_record v = Inr d
     \<and> map_of d ''Address''
          = Some (if truthy (google_vicinity v) then google_vicinity v else address v)
     \<and> map_of d ''Phone''
          = Some (if truthy (google_phone v) then google_phone v else phone v)
     \<and> map_of d ''Website''
          = Some (if truthy (google_website v) then google_website v else website v)
     \<and> map_of d ''Visit Date''
          = Some (case visit_date v of PDateTime t \<Rightarrow> PStr (strftime t) | _ \<Rightarrow> PNone)"
  using assms
  by (auto simp: export_record_def raise_or_def visit_date_text_def py_or_def)

lemma strftime_noon: "strftime noon = ''2026-02-14 12:00:00''"
  by (simp add: strftime_def noon_def pad2_def pad4_def digit_def)

theorem export_contact_columns_witness:
  "visit_date (whiteladies\<lparr>visit_date := PDateTime noon\<rparr>) = PDateTime noon
   \<and> (\<exists>d. export_record (whiteladies\<lparr>visit_date := PDateTime noon\<rparr>) = Inr d
        \<and> map_of d ''Address'' = Some (PStr ''Whiteladies Rd, Bristol'')
        \<and> map_of d ''Phone'' = Some (PStr ''0117 496 0000'')
        \<and> map_of d ''Website'' = Some (PStr ''https://maps.example/whiteladies'')
        \<and> map_of d ''Visit Date'' = Some (PStr ''2026-02-14 12:00:00''))"
proof -
  have h: "visit_date (whiteladies\<lparr>visit_date := PDateTime noon\<rparr>) = PNone
           \<or> (\<exists>t. visit_date (whiteladies\<lparr>visit_date := PDateTime noon\<rparr>) = PDateTime t)"
    by simp
  have f: "google_vicinity whiteladies = PStr ''Whiteladies Rd, Bristol''"
    "google_phone whiteladies = PStr ''0117 496 0000''"
    "google_website whiteladies = PStr ''https://maps.example/whiteladies''"
    by (simp_all add: whiteladies_def)
  from export_contact_columns [OF h] show ?thesis
    by (simp add: f strftime_noon)
qed

text \<open>
  Where both address variants exist the export does not take the locally curated one: it
  takes \<^verbatim>\<open>google_vicinity\<close>.
\<close>

theorem export_prefers_local_counterexample:
  "map_of (projr (export_record whiteladies)) ''Address'' = Some (PStr ''Whiteladies Rd, Bristol'')
   \<and> google_vicinity whiteladies = PStr ''Whiteladies Rd, Bristol''
   \<and> address whiteladies = PStr ''12 Whiteladies Road''
   \<and> map_of (projr (export_record whiteladies)) ''Address'' \<noteq> Some (address whiteladies)"
proof -
  have f: "google_vicinity whiteladies = PStr ''Whiteladies Rd, Bristol''"
    "address whiteladies = PStr ''12 Whiteladies Road''"
    by (simp_all add: whiteladies_def)
  show ?thesis
    by (simp add: export_record_def raise_or_def visit_date_text_def visit_date_blank
          py_or_def f)
qed

end
